theory Spec2Isabelle
  imports Complex_Main
begin

section \<open>JavaScript values\<close>

text \<open>
  The client is TypeScript; its interfaces are erased at run time, and what flows through
  \<open>process\<close>, \<open>processStream\<close> and \<open>getChunks\<close> is whatever \<open>response.json()\<close> decoded.
  Response bodies are therefore JSON values, and a property read is a lookup that yields
  \<open>undefined\<close> (here \<open>None\<close>) when the property is absent.

  JavaScript numbers are modelled by integers: the numbers that the modelled code counts and
  compares are attempt counts, sizes and numbers of milliseconds. \<open>NaN\<close>, the infinities
  and fractions (the quality and confidence scores, which the code only prints or copies)
  are outside the model. Strings are lists of ASCII characters.
\<close>

type_synonym number = int

datatype json =
    JNull
  | JBool bool
  | JNum number
  | JStr string
  | JArr "json list"
  | JObj "(string \<times> json) list"

text \<open>\<open>None\<close> is \<open>undefined\<close>.\<close>

type_synonym jsval = "json option"

text \<open>\<open>v.k\<close> for a value \<open>v\<close> that is neither \<open>null\<close> nor \<open>undefined\<close> and a key \<open>k\<close> that is
  one of the snake-case names of the wire format. \<open>JSON.parse\<close> keeps the last of duplicate keys.\<close>

fun getProp :: "json \<Rightarrow> string \<Rightarrow> jsval" where
  "getProp (JObj kvs) k = map_of (rev kvs) k"
| "getProp _ k = None"

text \<open>Truthiness, as \<open>if (v)\<close>, \<open>!v\<close> and \<open>v || d\<close> test it.\<close>

fun truthy :: "jsval \<Rightarrow> bool" where
  "truthy None = False"
| "truthy (Some JNull) = False"
| "truthy (Some (JBool b)) = b"
| "truthy (Some (JNum n)) = (n \<noteq> 0)"
| "truthy (Some (JStr s)) = (s \<noteq> [])"
| "truthy (Some (JArr _)) = True"
| "truthy (Some (JObj _)) = True"

text \<open>\<open>v || d\<close>\<close>

definition orElse :: "jsval \<Rightarrow> json \<Rightarrow> json" where
  "orElse v d = (case v of Some j \<Rightarrow> if truthy v then j else d | None \<Rightarrow> d)"

text \<open>\<open>n.toString()\<close> and \<open>`${n}`\<close> for an integral number: decimal digits, which is
  what JavaScript prints below \<open>10^21\<close>.\<close>

fun natToString :: "nat \<Rightarrow> string" where
  "natToString n =
     (if n < 10 then [''0123456789'' ! n]
      else natToString (n div 10) @ [''0123456789'' ! (n mod 10)])"

declare natToString.simps [simp del]

definition numberToString :: "number \<Rightarrow> string" where
  "numberToString n = (if n < 0 then CHR ''-'' # natToString (nat (- n)) else natToString (nat n))"

definition boolToString :: "bool \<Rightarrow> string" where
  "boolToString b = (if b then ''true'' else ''false'')"

fun joinWith :: "string \<Rightarrow> string list \<Rightarrow> string" where
  "joinWith sep [] = []"
| "joinWith sep [x] = x"
| "joinWith sep (x # y # ys) = x @ sep @ joinWith sep (y # ys)"

text \<open>String conversion of a JSON value inside a template literal.\<close>

fun jsToString :: "json \<Rightarrow> string" where
  "jsToString JNull = ''null''"
| "jsToString (JBool b) = boolToString b"
| "jsToString (JNum n) = numberToString n"
| "jsToString (JStr s) = s"
| "jsToString (JArr xs) = joinWith '','' (map (\<lambda>x. if x = JNull then [] else jsToString x) xs)"
| "jsToString (JObj _) = ''[object Object]''"

definition jsvalToString :: "jsval \<Rightarrow> string" where
  "jsvalToString v = (case v of None \<Rightarrow> ''undefined'' | Some j \<Rightarrow> jsToString j)"

subsection \<open>String helpers\<close>

definition startsWith :: "string \<Rightarrow> string \<Rightarrow> bool" where
  "startsWith s p = (take (length p) s = p)"

text \<open>\<open>s.includes(sub)\<close>\<close>

fun includesStr :: "string \<Rightarrow> string \<Rightarrow> bool" where
  "includesStr [] sub = (sub = [])"
| "includesStr (c # cs) sub = (startsWith (c # cs) sub \<or> includesStr cs sub)"



subsection \<open>Thrown values\<close>

text \<open>
  What the runtime itself throws (a rejected \<open>fetch\<close>, a failing \<open>fs\<close> call, a
  \<open>SyntaxError\<close> of \<open>response.json()\<close>, \<open>new URL\<close> on a malformed string): an \<open>Error\<close>
  object with its message and, for \<open>fs\<close>, its \<open>code\<close>, or some value that is not an \<open>Error\<close>.
\<close>

datatype js_exn = JsError string "string option" | JsNonError

text \<open>\<open>error instanceof Error ? error.message : 'Unknown error'\<close>\<close>

fun exnMessage :: "js_exn \<Rightarrow> string" where
  "exnMessage (JsError m _) = m"
| "exnMessage JsNonError = ''Unknown error''"

fun exnCode :: "js_exn \<Rightarrow> string option" where
  "exnCode (JsError _ c) = c"
| "exnCode JsNonError = None"

text \<open>
  What a method of the client throws: the two exported error classes, a runtime exception
  that no handler wraps, or the \<open>TypeError\<close> of a property read on \<open>null\<close> or of a call of
  something that is not a function.
\<close>

datatype thrown =
    RaptorError string
  | RaptorAPIError string number json
  | Uncaught js_exn
  | TypeError

section \<open>The environment\<close>

record URL =
  hostname :: string
  protocol :: string

record blob =
  blobBytes :: string
  blobType :: string

datatype formValue =
    FormFile blob "string option"
  | FormString string

type_synonym formData = "(string \<times> formValue) list"

record request =
  reqMethod :: string
  reqUrl :: string
  reqAuthorization :: string
  reqBody :: "formData option"

record response =
  ok :: bool
  status :: number
  statusText :: string
  json :: "js_exn + json"

text \<open>
  Everything the client asks of its platform. \<open>fetch\<close> and \<open>Date.now\<close> are oracles indexed by
  the number of earlier calls, so a server may answer the same status request differently
  each time. \<open>statSync\<close> yields \<open>stats.isFile()\<close>.
\<close>

record env =
  isNode :: bool
  newURL :: "string \<Rightarrow> js_exn + URL"
  statSync :: "string \<Rightarrow> js_exn + bool"
  readFileSync :: "string \<Rightarrow> js_exn + string"
  basename :: "string \<Rightarrow> string"
  encodeParam :: "string \<Rightarrow> string"
  fetch :: "nat \<Rightarrow> request \<Rightarrow> js_exn + response"
  now :: "nat \<Rightarrow> number"

section \<open>The client and its constructor\<close>

record RaptorConfig =
  apiKey :: string
  baseUrl :: "string option"
  timeout :: "number option"
  maxPollAttempts :: "number option"
  pollTimeout :: "number option"
  dangerouslyAllowLocalhost :: "bool option"

record Raptor =
  apiKey :: string
  baseUrl :: string
  timeout :: number
  maxPollAttempts :: number
  pollTimeout :: number

text \<open>\<open>n || d\<close> for an optional number: \<open>undefined\<close> and \<open>0\<close> are falsy.\<close>

definition numOr :: "number option \<Rightarrow> number \<Rightarrow> number" where
  "numOr n d = (case n of None \<Rightarrow> d | Some v \<Rightarrow> if v = 0 then d else v)"









section \<open>Effects\<close>

text \<open>
  A generator event of \<open>processStream\<close>. The first event has no \<open>variantId\<close> property.
\<close>

record progress =
  stage :: string
  percent :: number
  message :: string
  variantId :: jsval

text \<open>
  What a run does to the outside world, in order: the requests it issues, its readings of
  the clock, its sleeps (\<open>setTimeout\<close>) and the events it yields.
\<close>

datatype effect = Fetch request | DateNow | Sleep number | Yield progress

fun isFetch :: "effect \<Rightarrow> bool" where
  "isFetch (Fetch _) = True"
| "isFetch _ = False"

fun isDateNow :: "effect \<Rightarrow> bool" where
  "isDateNow DateNow = True"
| "isDateNow _ = False"

definition doFetch :: "env \<Rightarrow> request \<Rightarrow> effect list \<Rightarrow> (js_exn + response) \<times> effect list" where
  "doFetch e r tr = (fetch e (length (filter isFetch tr)) r, tr @ [Fetch r])"

definition dateNow :: "env \<Rightarrow> effect list \<Rightarrow> number \<times> effect list" where
  "dateNow e tr = (now e (length (filter isDateNow tr)), tr @ [DateNow])"

text \<open>The requests of a trace, and its events, in order.\<close>

fun requestsOf :: "effect list \<Rightarrow> request list" where
  "requestsOf [] = []"
| "requestsOf (Fetch r # tr) = r # requestsOf tr"
| "requestsOf (_ # tr) = requestsOf tr"

fun eventsOf :: "effect list \<Rightarrow> progress list" where
  "eventsOf [] = []"
| "eventsOf (Yield p # tr) = p # eventsOf tr"
| "eventsOf (_ # tr) = eventsOf tr"

section \<open>Errors of a response that is not ok\<close>

text \<open>\<open>typeof error === 'object' && error !== null && 'detail' in error\<close>\<close>

fun hasDetail :: "json \<Rightarrow> bool" where
  "hasDetail (JObj kvs) = (''detail'' \<in> set (map fst kvs))"
| "hasDetail _ = False"

text \<open>
  \<open>const error = await response.json().catch(() => ({}));\<close>
  \<open>const errorDetail = hasDetail(error) ? error.detail : undefined;\<close>
  \<open>throw new RaptorAPIError(`<prefix>${errorDetail || response.statusText}`, response.status, error)\<close>
\<close>

definition errorBody :: "response \<Rightarrow> json" where
  "errorBody resp = (case json resp of Inl _ \<Rightarrow> JObj [] | Inr j \<Rightarrow> j)"

definition apiError :: "string \<Rightarrow> response \<Rightarrow> thrown" where
  "apiError prefix resp =
     (let error = errorBody resp;
          errorDetail = (if hasDetail error then getProp error ''detail'' else None)
      in RaptorAPIError
           (prefix @ (if truthy errorDetail then jsvalToString errorDetail else statusText resp))
           (status resp) error)"

section \<open>Building the submission\<close>

text \<open>
  \<open>strategy\<close> is declared \<open>'semantic' | 'recursive'\<close>; at run time it is a string like any
  other, and \<open>process\<close> tests its truthiness.
\<close>

record ProcessingConfig =
  chunkSize :: "number option"
  chunkOverlap :: "number option"
  strategy :: "string option"
  processImages :: "bool option"
  extractSectionNumbers :: "bool option"
  calculateQualityScores :: "bool option"
  minChunkQuality :: "number option"
  enableSmartContext :: "bool option"
  tableExtraction :: "bool option"
  tableContextGeneration :: "bool option"
  storeContent :: "bool option"

text \<open>\<open>interface ProcessOptions extends ProcessingConfig\<close>\<close>

record ProcessOptions = ProcessingConfig +
  wait :: "bool option"
  pollInterval :: "number option"
  maxPollAttempts :: "number option"
  pollTimeout :: "number option"
  parentDocumentId :: "string option"
  versionLabel :: "string option"
  autoLink :: "bool option"
  autoLinkThreshold :: "number option"

text \<open>\<open>source: string | File | Blob\<close>\<close>

datatype source = Path string | FileOrBlob blob

definition MIME_TYPES :: "(string \<times> string) list" where
  "MIME_TYPES =
     [(''pdf'', ''application/pdf''),
      (''docx'', ''application/vnd.openxmlformats-officedocument.wordprocessingml.document''),
      (''doc'', ''application/msword''),
      (''xlsx'', ''application/vnd.openxmlformats-officedocument.spreadsheetml.sheet''),
      (''xls'', ''application/vnd.ms-excel''),
      (''pptx'', ''application/vnd.openxmlformats-officedocument.presentationml.presentation''),
      (''ppt'', ''application/vnd.ms-powerpoint''),
      (''txt'', ''text/plain''),
      (''md'', ''text/markdown''),
      (''csv'', ''text/csv''),
      (''json'', ''application/json''),
      (''xml'', ''application/xml''),
      (''html'', ''text/html''),
      (''htm'', ''text/html''),
      (''png'', ''image/png''),
      (''jpg'', ''image/jpeg''),
      (''jpeg'', ''image/jpeg''),
      (''gif'', ''image/gif''),
      (''webp'', ''image/webp''),
      (''svg'', ''image/svg+xml''),
      (''bmp'', ''image/bmp''),
      (''tiff'', ''image/tiff''),
      (''tif'', ''image/tiff'')]"

definition toLowerCase :: "string \<Rightarrow> string" where
  "toLowerCase s =
     map (\<lambda>c. case map_of (zip ''ABCDEFGHIJKLMNOPQRSTUVWXYZ'' ''abcdefghijklmnopqrstuvwxyz'') c of
                 Some l \<Rightarrow> l | None \<Rightarrow> c) s"

text \<open>
  \<open>filename.split('.').pop()?.toLowerCase()\<close>: what follows the last dot, or the whole name.
  Properties that \<open>MIME_TYPES\<close> inherits from \<open>Object.prototype\<close> are not modelled.
\<close>

definition getMimeType :: "string \<Rightarrow> string" where
  "getMimeType filename =
     (let ext = toLowerCase (rev (takeWhile (\<lambda>c. c \<noteq> CHR ''.'') (rev filename)))
      in if ext \<noteq> []
         then (case map_of MIME_TYPES ext of Some t \<Rightarrow> t | None \<Rightarrow> ''application/octet-stream'')
         else ''application/octet-stream'')"

text \<open>
  The \<open>try\<close> around \<open>fs.statSync\<close> in \<open>process\<close>. The \<open>RaptorError\<close> for a path that is not a
  file is thrown inside the \<open>try\<close>, so the \<open>catch\<close> wraps it again.
\<close>

definition checkIsFile :: "env \<Rightarrow> string \<Rightarrow> thrown + unit" where
  "checkIsFile e p =
     (case statSync e p of
        Inr isFile \<Rightarrow>
          if \<not> isFile
          then Inl (RaptorError (''Failed to access file: '' @ ''Path is not a file: '' @ p))
          else Inr ()
      | Inl ex \<Rightarrow>
          if exnCode ex = Some ''ENOENT'' then Inl (RaptorError (''File not found: '' @ p))
          else Inl (RaptorError (''Failed to access file: '' @ exnMessage ex)))"

text \<open>The \<open>file\<close> entry that \<open>process\<close> appends to the form.\<close>

definition readSource :: "env \<Rightarrow> source \<Rightarrow> thrown + string \<times> formValue" where
  "readSource e src =
     (case src of
        FileOrBlob b \<Rightarrow> Inr (''file'', FormFile b None)
      | Path p \<Rightarrow>
          if \<not> isNode e then Inl (RaptorError ''String paths only supported in Node.js'')
          else case checkIsFile e p of
            Inl err \<Rightarrow> Inl err
          | Inr _ \<Rightarrow>
              (case readFileSync e p of
                 Inl ex \<Rightarrow> Inl (RaptorError (''Failed to read file: '' @ exnMessage ex))
               | Inr fileBuffer \<Rightarrow>
                   let filename = basename e p in
                   if includesStr filename ''..'' \<or> includesStr filename ''/'' \<or>
                      includesStr filename [CHR 0x5C]
                   then Inl (RaptorError ''Invalid filename detected in path'')
                   else Inr (''file'',
                     FormFile \<lparr>blobBytes = fileBuffer, blobType = getMimeType filename\<rparr>
                       (Some filename))))"

text \<open>\<open>if (v !== undefined) formData.append(k, v.toString())\<close>\<close>

definition appendIfDefined :: "string \<Rightarrow> string option \<Rightarrow> formData" where
  "appendIfDefined k v = (case v of None \<Rightarrow> [] | Some s \<Rightarrow> [(k, FormString s)])"

text \<open>\<open>if (strategy) formData.append('strategy', strategy)\<close>\<close>

definition appendIfTruthy :: "string \<Rightarrow> string option \<Rightarrow> formData" where
  "appendIfTruthy k v =
     (case v of None \<Rightarrow> [] | Some s \<Rightarrow> if s \<noteq> [] then [(k, FormString s)] else [])"

text \<open>The processing-config entries, in the order in which \<open>process\<close> appends them.\<close>

definition configEntries :: "ProcessOptions \<Rightarrow> formData" where
  "configEntries options =
     appendIfDefined ''chunk_size'' (map_option numberToString (chunkSize options)) @
     appendIfDefined ''chunk_overlap'' (map_option numberToString (chunkOverlap options)) @
     appendIfTruthy ''strategy'' (strategy options) @
     appendIfDefined ''process_images'' (map_option boolToString (processImages options)) @
     appendIfDefined ''extract_section_numbers''
       (map_option boolToString (extractSectionNumbers options)) @
     appendIfDefined ''calculate_quality_scores''
       (map_option boolToString (calculateQualityScores options)) @
     appendIfDefined ''min_chunk_quality'' (map_option numberToString (minChunkQuality options)) @
     appendIfDefined ''enable_smart_context''
       (map_option boolToString (enableSmartContext options)) @
     appendIfDefined ''table_extraction'' (map_option boolToString (tableExtraction options)) @
     appendIfDefined ''table_context_generation''
       (map_option boolToString (tableContextGeneration options)) @
     appendIfDefined ''store_content'' (map_option boolToString (storeContent options))"

text \<open>\<open>if (v !== undefined) queryParams.append(k, v)\<close>\<close>

definition paramIfDefined :: "string \<Rightarrow> string option \<Rightarrow> (string \<times> string) list" where
  "paramIfDefined k v = (case v of None \<Rightarrow> [] | Some s \<Rightarrow> [(k, s)])"

definition queryParams :: "ProcessOptions \<Rightarrow> (string \<times> string) list" where
  "queryParams options =
     paramIfDefined ''parent_document_id'' (ProcessOptions.parentDocumentId options) @
     paramIfDefined ''version_label'' (versionLabel options) @
     paramIfDefined ''auto_link'' (map_option boolToString (autoLink options)) @
     paramIfDefined ''auto_link_threshold'' (map_option numberToString (autoLinkThreshold options))"

text \<open>
  \<open>URLSearchParams.prototype.toString\<close>: \<open>name=value\<close> pairs joined by \<open>&\<close>, each name and
  value percent-encoded by the platform.
\<close>

definition searchParamsToString :: "env \<Rightarrow> (string \<times> string) list \<Rightarrow> string" where
  "searchParamsToString e ps =
     joinWith ''&'' (map (\<lambda>(k, v). encodeParam e k @ ''='' @ encodeParam e v) ps)"

definition uploadUrl :: "env \<Rightarrow> Raptor \<Rightarrow> ProcessOptions \<Rightarrow> string" where
  "uploadUrl e this options =
     (let queryString = searchParamsToString e (queryParams options)
      in if queryString \<noteq> []
         then Raptor.baseUrl this @ ''/api/documents?'' @ queryString
         else Raptor.baseUrl this @ ''/api/documents'')"

definition uploadRequest :: "env \<Rightarrow> Raptor \<Rightarrow> ProcessOptions \<Rightarrow> formData \<Rightarrow> request" where
  "uploadRequest e this options formData =
     \<lparr>reqMethod = ''POST'', reqUrl = uploadUrl e this options,
      reqAuthorization = ''Bearer '' @ Raptor.apiKey this, reqBody = Some formData\<rparr>"

text \<open>
  The upload of \<open>process\<close>, up to the check of the variant id. Reading \<open>variant_id\<close> off a
  body that decoded to \<open>null\<close> is a \<open>TypeError\<close> that nothing catches.
\<close>

definition upload ::
  "env \<Rightarrow> Raptor \<Rightarrow> ProcessOptions \<Rightarrow> formData \<Rightarrow> effect list \<Rightarrow> (thrown + json) \<times> effect list"
where
  "upload e this options formData tr =
     (case doFetch e (uploadRequest e this options formData) tr of
        (Inl ex, tr') \<Rightarrow>
          (Inl (RaptorError (''Network error during upload: '' @ exnMessage ex)), tr')
      | (Inr uploadResponse, tr') \<Rightarrow>
          if \<not> ok uploadResponse then (Inl (apiError ''Upload failed: '' uploadResponse), tr')
          else case json uploadResponse of
            Inl ex \<Rightarrow>
              (Inl (RaptorError (''Failed to parse upload response: '' @ exnMessage ex)), tr')
          | Inr uploadData \<Rightarrow>
              if uploadData = JNull then (Inl TypeError, tr')
              else if \<not> truthy (getProp uploadData ''variant_id'')
              then (Inl (RaptorError ''Upload response missing variant ID''), tr')
              else (Inr uploadData, tr'))"

section \<open>The result of process\<close>

record ChunkMetadata =
  id' :: jsval
  pageNumber :: jsval
  pageRange :: jsval
  section' :: jsval
  tokens :: jsval
  chunkIndex :: jsval
  metadata :: jsval
  chunkType :: jsval
  containsTable :: jsval
  tableMetadata :: jsval
  chunkingStrategy :: jsval
  sectionNumber :: jsval
  qualityScore :: jsval
  syntheticContext :: jsval
  parentChunkId :: jsval
  boundingBox :: jsval
  dedupStrategy :: jsval
  dedupConfidence :: jsval
  isReused :: jsval
  totalSentences :: jsval
  reusedSentencesCount :: jsval
  newSentencesCount :: jsval
  contentReuseRatio :: jsval
  embeddingRecommendation :: jsval
  recommendationConfidence :: jsval
  dedupMetadata :: jsval

record ProcessResult =
  documentId :: jsval
  variantId :: jsval
  chunks :: "jsval list"
  metadata :: "ChunkMetadata list"
  versionId :: jsval
  versionNumber :: jsval
  isNewDocument :: jsval
  isNewVersion :: jsval
  isNewVariant :: jsval
  existingMatch :: jsval
  isDuplicate :: jsval
  canonicalDocumentId :: jsval
  processingSkipped :: jsval
  costSaved :: jsval
  deduplicationAvailable :: jsval
  autoLinked :: jsval
  autoLinkConfidence :: jsval
  autoLinkExplanation :: jsval
  autoLinkMethod :: jsval
  parentDocumentId :: jsval

text \<open>The metadata that \<open>process\<close> builds from one element \<open>c\<close> of the fetched chunks.\<close>

definition chunkMetadata :: "json \<Rightarrow> ChunkMetadata" where
  "chunkMetadata c =
     \<lparr>ChunkMetadata.id' = getProp c ''id'',
      pageNumber = getProp c ''page_number'',
      pageRange = Some (orElse (getProp c ''page_range'') (JArr [])),
      section' = Some (orElse (getProp c ''section_hierarchy'') (JArr [])),
      tokens = getProp c ''tokens'',
      chunkIndex = getProp c ''chunk_index'',
      metadata = getProp c ''metadata'',
      chunkType = getProp c ''chunk_type'',
      containsTable = getProp c ''contains_table'',
      tableMetadata = getProp c ''table_metadata'',
      chunkingStrategy = getProp c ''chunking_strategy'',
      sectionNumber = getProp c ''section_number'',
      qualityScore = getProp c ''quality_score'',
      syntheticContext = getProp c ''synthetic_context'',
      parentChunkId = getProp c ''parent_chunk_id'',
      boundingBox = getProp c ''bounding_box'',
      dedupStrategy = getProp c ''dedup_strategy'',
      dedupConfidence = getProp c ''dedup_confidence'',
      isReused = getProp c ''is_reused'',
      totalSentences = getProp c ''total_sentences'',
      reusedSentencesCount = getProp c ''reused_sentences_count'',
      newSentencesCount = getProp c ''new_sentences_count'',
      contentReuseRatio = getProp c ''content_reuse_ratio'',
      embeddingRecommendation = getProp c ''embedding_recommendation'',
      recommendationConfidence = getProp c ''recommendation_confidence'',
      dedupMetadata = getProp c ''dedup_metadata''\<rparr>"

text \<open>
  The object that \<open>process\<close> returns, from the decoded upload response and the mapped chunks.
  With \<open>wait: false\<close> both lists are empty.
\<close>

definition processResult :: "json \<Rightarrow> jsval list \<Rightarrow> ChunkMetadata list \<Rightarrow> ProcessResult" where
  "processResult uploadData cs ms =
     \<lparr>ProcessResult.documentId = getProp uploadData ''document_id'',
      variantId = getProp uploadData ''variant_id'',
      chunks = cs,
      metadata = ms,
      versionId = getProp uploadData ''version_id'',
      versionNumber = getProp uploadData ''version_number'',
      isNewDocument = getProp uploadData ''is_new_document'',
      isNewVersion = getProp uploadData ''is_new_version'',
      isNewVariant = getProp uploadData ''is_new_variant'',
      existingMatch = getProp uploadData ''existing_match'',
      isDuplicate = getProp uploadData ''is_duplicate'',
      canonicalDocumentId = getProp uploadData ''canonical_document_id'',
      processingSkipped = getProp uploadData ''processing_skipped'',
      costSaved = getProp uploadData ''cost_saved'',
      deduplicationAvailable = getProp uploadData ''deduplication_available'',
      autoLinked = getProp uploadData ''auto_linked'',
      autoLinkConfidence = getProp uploadData ''auto_link_confidence'',
      autoLinkExplanation = getProp uploadData ''auto_link_explanation'',
      autoLinkMethod = getProp uploadData ''auto_link_method'',
      parentDocumentId = getProp uploadData ''parent_document_id''\<rparr>"

section \<open>The polling loop of process\<close>

text \<open>The local variables of \<open>process\<close> that its loop reads, and the status request it repeats.\<close>

record polling =
  statusRequest :: request
  maxAttempts :: number
  pollTimeoutMs :: number
  startTime :: number
  pollInterval :: number

definition variantUrl :: "Raptor \<Rightarrow> jsval \<Rightarrow> string" where
  "variantUrl this vid = Raptor.baseUrl this @ ''/api/documents/variants/'' @ jsvalToString vid"

definition getRequest :: "Raptor \<Rightarrow> string \<Rightarrow> request" where
  "getRequest this url =
     \<lparr>reqMethod = ''GET'', reqUrl = url,
      reqAuthorization = ''Bearer '' @ Raptor.apiKey this, reqBody = None\<rparr>"

text \<open>How one pass through the body of \<open>while (true)\<close> ends.\<close>

datatype step = Continue | Break | Throw thrown

definition attemptsExceeded :: "number \<Rightarrow> thrown" where
  "attemptsExceeded n =
     RaptorError (''Processing timeout: exceeded '' @ numberToString n @ '' polling attempts'')"

definition timeExceeded :: "number \<Rightarrow> thrown" where
  "timeExceeded ms = RaptorError (''Processing timeout: exceeded '' @ numberToString ms @ ''ms'')"

text \<open>\<open>`Processing failed: ${variant.error || 'Unknown error'}`\<close>\<close>

definition processingFailed :: "json \<Rightarrow> thrown" where
  "processingFailed variant =
     RaptorError (''Processing failed: '' @
       jsToString (orElse (getProp variant ''error'') (JStr ''Unknown error'')))"

text \<open>
  The loop body of \<open>process\<close>; \<open>attempts\<close> is the counter after \<open>attempts++\<close>.
\<close>

definition pollIteration :: "env \<Rightarrow> polling \<Rightarrow> number \<Rightarrow> effect list \<Rightarrow> step \<times> effect list" where
  "pollIteration e v attempts tr =
     (if attempts > maxAttempts v then (Throw (attemptsExceeded (maxAttempts v)), tr)
      else case dateNow e tr of (t, tr1) \<Rightarrow>
        if t - startTime v > pollTimeoutMs v then (Throw (timeExceeded (pollTimeoutMs v)), tr1)
        else case doFetch e (statusRequest v) tr1 of
          (Inl ex, tr2) \<Rightarrow>
            (Throw (RaptorError (''Network error during status check: '' @ exnMessage ex)), tr2)
        | (Inr statusResponse, tr2) \<Rightarrow>
            if \<not> ok statusResponse
            then (Throw (apiError ''Status check failed: '' statusResponse), tr2)
            else case json statusResponse of
              Inl ex \<Rightarrow>
                (Throw (RaptorError (''Failed to parse status response: '' @ exnMessage ex)), tr2)
            | Inr variant \<Rightarrow>
                if variant = JNull then (Throw TypeError, tr2)
                else if getProp variant ''status'' = Some (JStr ''completed'') then (Break, tr2)
                else if getProp variant ''status'' = Some (JStr ''failed'')
                then (Throw (processingFailed variant), tr2)
                else (Continue, tr2 @ [Sleep (pollInterval v)]))"

text \<open>
  \<open>while (true) { attempts++; ... }\<close>. The result is what the loop throws (\<open>None\<close> after
  \<open>break\<close>), the final value of \<open>attempts\<close>, which is the number of passes begun, and the trace.
\<close>

function pollLoop ::
  "env \<Rightarrow> polling \<Rightarrow> number \<Rightarrow> effect list \<Rightarrow> thrown option \<times> number \<times> effect list"
where
  "pollLoop e v attempts tr =
     (case pollIteration e v (attempts + 1) tr of
        (Throw err, tr') \<Rightarrow> (Some err, attempts + 1, tr')
      | (Break, tr') \<Rightarrow> (None, attempts + 1, tr')
      | (Continue, tr') \<Rightarrow> pollLoop e v (attempts + 1) tr')"
  by pat_completeness auto
termination
proof (relation "measure (\<lambda>(e, v, attempts, tr). nat (maxAttempts v - attempts))")
  show "wf (measure (\<lambda>(e, v, attempts, tr). nat (maxAttempts v - attempts)))"
    by simp
next
  fix e :: env and v :: polling and attempts :: number and tr tr' :: "effect list" and x st
  assume "(st, tr') = pollIteration e v (attempts + 1) tr" and "st = Continue"
  then have "pollIteration e v (attempts + 1) tr = (Continue, tr')"
    by simp
  then have "attempts + 1 \<le> maxAttempts v"
    by (auto simp: pollIteration_def split: if_splits prod.splits sum.splits)
  then show "((e, v, attempts + 1, tr'), e, v, attempts, tr)
      \<in> measure (\<lambda>(e, v, attempts, tr). nat (maxAttempts v - attempts))"
    by simp
qed

declare pollLoop.simps [simp del]

section \<open>process\<close>

definition chunksRequest :: "Raptor \<Rightarrow> jsval \<Rightarrow> request" where
  "chunksRequest this vid = getRequest this (variantUrl this vid @ ''/chunks'')"

text \<open>
  Step 3 of \<open>process\<close>, up to \<open>const chunks = chunksData.chunks || []\<close> and the two
  \<open>chunks.map\<close> calls, which throw a \<open>TypeError\<close> when \<open>chunks\<close> is not an array or holds
  a \<open>null\<close>.
\<close>

definition fetchChunks ::
  "env \<Rightarrow> Raptor \<Rightarrow> jsval \<Rightarrow> effect list \<Rightarrow> (thrown + json list) \<times> effect list"
where
  "fetchChunks e this vid tr =
     (case doFetch e (chunksRequest this vid) tr of
        (Inl ex, tr') \<Rightarrow>
          (Inl (RaptorError (''Network error while fetching chunks: '' @ exnMessage ex)), tr')
      | (Inr chunksResponse, tr') \<Rightarrow>
          if \<not> ok chunksResponse
          then (Inl (apiError ''Failed to get chunks: '' chunksResponse), tr')
          else case json chunksResponse of
            Inl ex \<Rightarrow>
              (Inl (RaptorError (''Failed to parse chunks response: '' @ exnMessage ex)), tr')
          | Inr chunksData \<Rightarrow>
              if chunksData = JNull then (Inl TypeError, tr')
              else case orElse (getProp chunksData ''chunks'') (JArr []) of
                JArr cs \<Rightarrow> if JNull \<in> set cs then (Inl TypeError, tr') else (Inr cs, tr')
              | _ \<Rightarrow> (Inl TypeError, tr'))"

text \<open>The loop variables as \<open>process\<close> sets them up; \<open>pollInterval = 1000\<close> is a destructuring
  default, which replaces \<open>undefined\<close> only.\<close>

definition pollingOf :: "Raptor \<Rightarrow> ProcessOptions \<Rightarrow> jsval \<Rightarrow> number \<Rightarrow> polling" where
  "pollingOf this options vid t0 =
     \<lparr>statusRequest = getRequest this (variantUrl this vid),
      maxAttempts = numOr (ProcessOptions.maxPollAttempts options) (Raptor.maxPollAttempts this),
      pollTimeoutMs = numOr (ProcessOptions.pollTimeout options) (Raptor.pollTimeout this),
      startTime = t0,
      pollInterval = (case ProcessOptions.pollInterval options of None \<Rightarrow> 1000 | Some n \<Rightarrow> n)\<rparr>"

definition process ::
  "env \<Rightarrow> Raptor \<Rightarrow> source \<Rightarrow> ProcessOptions \<Rightarrow> (thrown + ProcessResult) \<times> effect list"
where
  "process e this src options =
     (case readSource e src of
        Inl err \<Rightarrow> (Inl err, [])
      | Inr file \<Rightarrow>
          (case upload e this options (file # configEntries options) [] of
             (Inl err, tr) \<Rightarrow> (Inl err, tr)
           | (Inr uploadData, tr) \<Rightarrow>
               if wait options = Some False then (Inr (processResult uploadData [] []), tr)
               else case dateNow e tr of (t0, tr1) \<Rightarrow>
                 (case pollLoop e (pollingOf this options (getProp uploadData ''variant_id'') t0) 0 tr1 of
                    (Some err, _, tr2) \<Rightarrow> (Inl err, tr2)
                  | (None, _, tr2) \<Rightarrow>
                      (case fetchChunks e this (getProp uploadData ''variant_id'') tr2 of
                         (Inl err, tr3) \<Rightarrow> (Inl err, tr3)
                       | (Inr cs, tr3) \<Rightarrow>
                           (Inr (processResult uploadData
                                   (map (\<lambda>c. getProp c ''text'') cs)
                                   (map chunkMetadata cs)), tr3)))))"

section \<open>processStream\<close>

text \<open>
  The generator is modelled by a run to its end: the events it yields are the \<open>Yield\<close>
  effects of the trace, and the outcome is what it throws, or \<open>None\<close> when it returns.
\<close>











text \<open>The loop variables of \<open>processStream\<close>; the interval is \<open>options.pollInterval || 1000\<close>.\<close>

definition streamPollingOf :: "Raptor \<Rightarrow> ProcessOptions \<Rightarrow> jsval \<Rightarrow> number \<Rightarrow> polling" where
  "streamPollingOf this options vid t0 =
     \<lparr>statusRequest = getRequest this (variantUrl this vid),
      maxAttempts = numOr (ProcessOptions.maxPollAttempts options) (Raptor.maxPollAttempts this),
      pollTimeoutMs = numOr (ProcessOptions.pollTimeout options) (Raptor.pollTimeout this),
      startTime = t0,
      pollInterval = numOr (ProcessOptions.pollInterval options) 1000\<rparr>"


section \<open>getChunks\<close>

record Chunk =
  id' :: jsval
  text' :: jsval
  pageNumber :: jsval
  pageRange :: jsval
  sectionHierarchy :: jsval
  tokens :: jsval
  chunkIndex :: jsval
  metadata :: jsval
  chunkType :: jsval
  containsTable :: jsval
  tableMetadata :: jsval
  chunkingStrategy :: jsval
  sectionNumber :: jsval
  qualityScore :: jsval
  syntheticContext :: jsval
  parentChunkId :: jsval
  boundingBox :: jsval
  dedupStrategy :: jsval
  dedupConfidence :: jsval
  isReused :: jsval
  dedupSourceChunkId :: jsval
  totalSentences :: jsval
  reusedSentencesCount :: jsval
  newSentencesCount :: jsval
  contentReuseRatio :: jsval
  embeddingRecommendation :: jsval
  recommendationConfidence :: jsval
  dedupMetadata :: jsval

record ChunksResult =
  chunks :: "Chunk list"
  total :: number








section \<open>The schema mapper for processing variants\<close>

text \<open>
  \<open>transformVariant\<close> is typed code from one declared interface to another, so both sides
  are records here; an optional property is an \<open>option\<close>.
\<close>

record BackendProcessingConfig =
  chunk_size :: "number option"
  chunk_overlap :: "number option"
  strategy :: "string option"
  process_images :: "bool option"
  extract_section_numbers :: "bool option"
  calculate_quality_scores :: "bool option"
  min_chunk_quality :: "number option"
  enable_smart_context :: "bool option"
  table_extraction :: "bool option"
  table_context_generation :: "bool option"
  store_content :: "bool option"

record BackendEmbeddingRecommendations =
  reuse :: "number option"
  consider_reuse :: "number option"
  regenerate :: "number option"

record BackendDedupStats =
  chunks_created :: number
  chunks_reused :: number
  total_chunks :: number
  savings_percent :: number
  chunks_high_reuse :: "number option"
  chunks_partial_reuse :: "number option"
  chunks_fuzzy_matched :: "number option"
  total_sentences :: "number option"
  reused_sentences :: "number option"
  new_sentences :: "number option"
  sentence_reuse_ratio :: "number option"
  embedding_recommendations :: "BackendEmbeddingRecommendations option"

record BackendProcessingVariant =
  id' :: string
  version_id :: string
  config_hash :: string
  config :: BackendProcessingConfig
  status :: string
  error :: "string option"
  chunks_count :: number
  total_tokens :: number
  page_count :: "number option"
  credits_charged :: "number option"
  is_primary :: bool
  dedup_stats :: "BackendDedupStats option"
  retry_count :: "number option"
  max_retries :: "number option"
  is_retrying :: "bool option"
  in_dlq :: "bool option"
  created_at :: string
  processed_at :: "string option"

record EmbeddingRecommendations =
  reuse :: "number option"
  considerReuse :: "number option"
  regenerate :: "number option"

record DedupStats =
  chunksCreated :: number
  chunksReused :: number
  totalChunks :: number
  savingsPercent :: number
  chunksHighReuse :: "number option"
  chunksPartialReuse :: "number option"
  chunksFuzzyMatched :: "number option"
  totalSentences :: "number option"
  reusedSentences :: "number option"
  newSentences :: "number option"
  sentenceReuseRatio :: "number option"
  embeddingRecommendations :: "EmbeddingRecommendations option"

record ProcessingVariant =
  id' :: string
  versionId :: string
  configHash :: string
  config :: ProcessingConfig
  status :: string
  error :: "string option"
  chunksCount :: number
  totalTokens :: number
  pageCount :: "number option"
  creditsCharged :: "number option"
  isPrimary :: bool
  dedupStats :: "DedupStats option"
  retryCount :: "number option"
  maxRetries :: "number option"
  isRetrying :: "bool option"
  inDlq :: "bool option"
  createdAt :: string
  processedAt :: "string option"





section \<open>Observing a run\<close>

text \<open>
  The body of a reply that is ok and decodes to something other than \<open>null\<close>; whether such a
  reply reports a given status; whether it reports a status other than \<open>completed\<close> and
  \<open>failed\<close>, as \<open>pending\<close> and \<open>processing\<close> are.
\<close>

definition okBody :: "js_exn + response \<Rightarrow> json option" where
  "okBody r =
     (case r of
        Inl _ \<Rightarrow> None
      | Inr resp \<Rightarrow>
          if ok resp
          then (case json resp of Inl _ \<Rightarrow> None | Inr j \<Rightarrow> if j = JNull then None else Some j)
          else None)"

definition hasStatus :: "js_exn + response \<Rightarrow> string \<Rightarrow> bool" where
  "hasStatus r s =
     (case okBody r of Some j \<Rightarrow> getProp j ''status'' = Some (JStr s) | None \<Rightarrow> False)"

definition nonTerminal :: "js_exn + response \<Rightarrow> bool" where
  "nonTerminal r =
     (case okBody r of
        Some j \<Rightarrow> getProp j ''status'' \<noteq> Some (JStr ''completed'') \<and>
                  getProp j ''status'' \<noteq> Some (JStr ''failed'')
      | None \<Rightarrow> False)"

text \<open>How many times a trace has read the clock and how many requests it has issued: the
  indices at which the next reading and the next reply are taken.\<close>

definition clockReads :: "effect list \<Rightarrow> nat" where
  "clockReads tr = length (filter isDateNow tr)"

definition fetches :: "effect list \<Rightarrow> nat" where
  "fetches tr = length (filter isFetch tr)"

text \<open>
  The submission step of \<open>process\<close>, when it succeeds: the decoded upload response, which
  carries the variant id, and the request that was sent.
\<close>

definition submission ::
  "env \<Rightarrow> Raptor \<Rightarrow> source \<Rightarrow> ProcessOptions \<Rightarrow> (json \<times> request) option" where
  "submission e this src options =
     (case readSource e src of
        Inl _ \<Rightarrow> None
      | Inr file \<Rightarrow>
          (case upload e this options (file # configEntries options) [] of
             (Inl _, _) \<Rightarrow> None
           | (Inr uploadData, _) \<Rightarrow>
               Some (uploadData, uploadRequest e this options (file # configEntries options))))"




text \<open>
  \<open>FormData.getAll\<close> and \<open>URLSearchParams.getAll\<close>: the values appended under a name, in
  order. \<open>provided\<close> is what a field that is sent whenever it is defined contributes.
\<close>

definition getAll :: "(string \<times> 'a) list \<Rightarrow> string \<Rightarrow> 'a list" where
  "getAll entries name = map snd (filter (\<lambda>(k, v). k = name) entries)"

definition provided :: "'a option \<Rightarrow> 'a list" where
  "provided v = (case v of None \<Rightarrow> [] | Some x \<Rightarrow> [x])"



section \<open>A scripted platform\<close>

text \<open>
  Concrete values on which the model is run: a browser whose \<open>fetch\<close> answers its \<open>n\<close>-th
  call with the \<open>n\<close>-th entry of a script and whose clock is given, the client that
  \<open>new Raptor({ apiKey: 'rd_live_xxx' })\<close> builds, and the options object \<open>{}\<close>.
\<close>

definition okResponse :: "json \<Rightarrow> response" where
  "okResponse body = \<lparr>ok = True, response.status = 200, statusText = ''OK'', json = Inr body\<rparr>"

definition browserURL :: "string \<Rightarrow> js_exn + URL" where
  "browserURL s =
     (if startsWith s ''https://''
      then Inr \<lparr>hostname = takeWhile (\<lambda>c. c \<noteq> CHR ''/'') (drop 8 s), protocol = ''https:''\<rparr>
      else if startsWith s ''http://''
      then Inr \<lparr>hostname = takeWhile (\<lambda>c. c \<noteq> CHR ''/'') (drop 7 s), protocol = ''http:''\<rparr>
      else Inl (JsError ''Invalid URL'' None))"

definition browser :: "(nat \<Rightarrow> js_exn + response) \<Rightarrow> (nat \<Rightarrow> number) \<Rightarrow> env" where
  "browser script clock =
     \<lparr>isNode = False,
      newURL = browserURL,
      statSync = (\<lambda>p. Inl (JsError ''no file system'' None)),
      readFileSync = (\<lambda>p. Inl (JsError ''no file system'' None)),
      basename = (\<lambda>p. rev (takeWhile (\<lambda>c. c \<noteq> CHR ''/'') (rev p))),
      encodeParam = (\<lambda>s. s),
      fetch = (\<lambda>n r. script n),
      now = clock\<rparr>"


definition defaultClient :: Raptor where
  "defaultClient = \<lparr>Raptor.apiKey = ''rd_live_xxx'', baseUrl = ''https://api.raptordata.dev'',
     timeout = 300000, maxPollAttempts = 300, pollTimeout = 300000\<rparr>"

definition noOptions :: ProcessOptions where
  "noOptions =
     \<lparr>chunkSize = None, chunkOverlap = None, strategy = None, processImages = None,
      extractSectionNumbers = None, calculateQualityScores = None, minChunkQuality = None,
      enableSmartContext = None, tableExtraction = None, tableContextGeneration = None,
      storeContent = None, wait = None, pollInterval = None, maxPollAttempts = None,
      pollTimeout = None, parentDocumentId = None, versionLabel = None, autoLink = None,
      autoLinkThreshold = None\<rparr>"

definition scripted :: "response list \<Rightarrow> nat \<Rightarrow> js_exn + response" where
  "scripted rs n = (if n < length rs then Inr (rs ! n) else Inl (JsError ''fetch failed'' None))"

definition uploadBody :: json where
  "uploadBody =
     JObj [(''variant_id'', JStr ''v1''), (''document_id'', JStr ''d1''),
           (''is_duplicate'', JBool True)]"

definition statusBody :: "string \<Rightarrow> json" where
  "statusBody s = JObj [(''status'', JStr s)]"

definition failedBody :: json where
  "failedBody = JObj [(''status'', JStr ''failed''), (''error'', JStr ''out of memory'')]"

definition chunksBody :: json where
  "chunksBody =
     JObj [(''chunks'', JArr [JObj [(''id'', JStr ''c1''), (''text'', JStr ''first'')],
                              JObj [(''id'', JStr ''c2''), (''text'', JStr ''second'')]]),
           (''total'', JNum 2)]"

definition pdf :: source where
  "pdf = FileOrBlob \<lparr>blobBytes = ''content'', blobType = ''application/pdf''\<rparr>"

definition pdfUpload :: request where
  "pdfUpload =
     \<lparr>reqMethod = ''POST'', reqUrl = ''https://api.raptordata.dev/api/documents'',
      reqAuthorization = ''Bearer rd_live_xxx'',
      reqBody = Some [(''file'',
        FormFile \<lparr>blobBytes = ''content'', blobType = ''application/pdf''\<rparr> None)]\<rparr>"

definition v1Status :: request where
  "v1Status =
     \<lparr>reqMethod = ''GET'', reqUrl = ''https://api.raptordata.dev/api/documents/variants/v1'',
      reqAuthorization = ''Bearer rd_live_xxx'', reqBody = None\<rparr>"

definition v1Chunks :: request where
  "v1Chunks =
     \<lparr>reqMethod = ''GET'',
      reqUrl = ''https://api.raptordata.dev/api/documents/variants/v1/chunks'',
      reqAuthorization = ''Bearer rd_live_xxx'', reqBody = None\<rparr>"




section \<open>The constructor validates its configuration\<close>






section \<open>Passes of the polling loop\<close>

lemma okBody_cases:
  "okBody r = Some j \<Longrightarrow> \<exists>resp. r = Inr resp \<and> ok resp \<and> json resp = Inr j \<and> j \<noteq> JNull"
  by (auto simp: okBody_def split: sum.splits if_splits)

lemma pollIteration_continue:
  assumes "attempts \<le> maxAttempts v"
    and "now e (clockReads tr) - startTime v \<le> pollTimeoutMs v"
    and "nonTerminal (fetch e (fetches tr) (statusRequest v))"
  shows "pollIteration e v attempts tr =
    (Continue, tr @ [DateNow, Fetch (statusRequest v), Sleep (polling.pollInterval v)])"
proof -
  from assms(3) obtain j where "okBody (fetch e (fetches tr) (statusRequest v)) = Some j"
    and "getProp j ''status'' \<noteq> Some (JStr ''completed'')"
    and "getProp j ''status'' \<noteq> Some (JStr ''failed'')"
    by (auto simp: nonTerminal_def split: option.splits)
  with assms(1,2) okBody_cases [of "fetch e (fetches tr) (statusRequest v)" j] show ?thesis
    by (auto simp: pollIteration_def dateNow_def doFetch_def clockReads_def fetches_def)
qed

lemma pollIteration_completed:
  assumes "attempts \<le> maxAttempts v"
    and "now e (clockReads tr) - startTime v \<le> pollTimeoutMs v"
    and "hasStatus (fetch e (fetches tr) (statusRequest v)) ''completed''"
  shows "pollIteration e v attempts tr = (Break, tr @ [DateNow, Fetch (statusRequest v)])"
proof -
  from assms(3) obtain j where "okBody (fetch e (fetches tr) (statusRequest v)) = Some j"
    and "getProp j ''status'' = Some (JStr ''completed'')"
    by (auto simp: hasStatus_def split: option.splits)
  with assms(1,2) okBody_cases [of "fetch e (fetches tr) (statusRequest v)" j] show ?thesis
    by (auto simp: pollIteration_def dateNow_def doFetch_def clockReads_def fetches_def)
qed



lemma clockReads_simps [simp]:
  "clockReads [] = 0"
  "clockReads (tr @ tr') = clockReads tr + clockReads tr'"
  "clockReads (DateNow # tr) = Suc (clockReads tr)"
  "clockReads (Fetch r # tr) = clockReads tr"
  "clockReads (Sleep n # tr) = clockReads tr"
  "clockReads (Yield p # tr) = clockReads tr"
  by (simp_all add: clockReads_def)

lemma fetches_simps [simp]:
  "fetches [] = 0"
  "fetches (tr @ tr') = fetches tr + fetches tr'"
  "fetches (DateNow # tr) = fetches tr"
  "fetches (Fetch r # tr) = Suc (fetches tr)"
  "fetches (Sleep n # tr) = fetches tr"
  "fetches (Yield p # tr) = fetches tr"
  by (simp_all add: fetches_def)

lemma pollLoop_continues:
  assumes "attempts + int k \<le> maxAttempts v"
    and "\<forall>i<k. now e (clockReads tr + i) - startTime v \<le> pollTimeoutMs v"
    and "\<forall>i<k. nonTerminal (fetch e (fetches tr + i) (statusRequest v))"
  shows "pollLoop e v attempts tr =
    pollLoop e v (attempts + int k)
      (tr @ concat (replicate k [DateNow, Fetch (statusRequest v), Sleep (polling.pollInterval v)]))"
  using assms
proof (induction k arbitrary: attempts tr)
  case 0
  then show ?case by simp
next
  case (Suc k)
  let ?tr = "tr @ [DateNow, Fetch (statusRequest v), Sleep (polling.pollInterval v)]"
  have it: "pollIteration e v (attempts + 1) tr = (Continue, ?tr)"
    using Suc.prems pollIteration_continue [of "attempts + 1" v e tr] by force
  have "pollLoop e v (attempts + 1) ?tr =
    pollLoop e v (attempts + 1 + int k)
      (?tr @ concat (replicate k [DateNow, Fetch (statusRequest v), Sleep (polling.pollInterval v)]))"
  proof (rule Suc.IH)
    show "attempts + 1 + int k \<le> maxAttempts v" using Suc.prems(1) by simp
    show "\<forall>i<k. now e (clockReads ?tr + i) - startTime v \<le> pollTimeoutMs v"
      using Suc.prems(2) by (auto simp: less_Suc_eq_0_disj)
    show "\<forall>i<k. nonTerminal (fetch e (fetches ?tr + i) (statusRequest v))"
      using Suc.prems(3) by (auto simp: less_Suc_eq_0_disj)
  qed
  with it show ?case
    by (subst pollLoop.simps) (simp add: ac_simps)
qed




lemma hasStatus_nonTerminal:
  "hasStatus r s \<Longrightarrow> s \<noteq> ''completed'' \<Longrightarrow> s \<noteq> ''failed'' \<Longrightarrow> nonTerminal r"
  by (auto simp: hasStatus_def nonTerminal_def split: option.splits)

lemma fetchChunks_array:
  assumes "okBody (fetch e (fetches tr) (chunksRequest this vid)) = Some body"
    and "getProp body ''chunks'' = Some (JArr cs)" and "JNull \<notin> set cs"
  shows "fetchChunks e this vid tr = (Inr cs, tr @ [Fetch (chunksRequest this vid)])"
  using assms(2,3) okBody_cases [OF assms(1)]
  by (auto simp: fetchChunks_def doFetch_def fetches_def orElse_def)

lemma pollLoop_break:
  assumes "attempts + 1 \<le> maxAttempts v"
    and "now e (clockReads tr) - startTime v \<le> pollTimeoutMs v"
    and "hasStatus (fetch e (fetches tr) (statusRequest v)) ''completed''"
  shows "pollLoop e v attempts tr = (None, attempts + 1, tr @ [DateNow, Fetch (statusRequest v)])"
  using pollIteration_completed [OF assms]
  by (subst pollLoop.simps) simp



lemma polling_simps [simp]:
  "statusRequest (pollingOf this opts vid t0) = getRequest this (variantUrl this vid)"
  "startTime (pollingOf this opts vid t0) = t0"
  by (simp_all add: pollingOf_def)

lemma requestsOf_append [simp]: "requestsOf (a @ b) = requestsOf a @ requestsOf b"
  by (induction a rule: requestsOf.induct) simp_all

lemma requestsOf_passes [simp]:
  "requestsOf (concat (replicate k [DateNow, Fetch q, Sleep s])) = replicate k q"
  by (induction k) simp_all



section \<open>From the submission to the loop\<close>

lemma upload_Inr:
  assumes "upload e this opts fd [] = (Inr d, tr)"
  shows "tr = [Fetch (uploadRequest e this opts fd)] \<and> d \<noteq> JNull \<and>
         truthy (getProp d ''variant_id'')"
  using assms
  by (auto simp: upload_def doFetch_def split: sum.splits if_splits)

lemma submission_upload:
  assumes "submission e this src opts = Some (d, req)"
  shows "\<exists>entry. readSource e src = Inr entry \<and>
           req = uploadRequest e this opts (entry # configEntries opts) \<and>
           upload e this opts (entry # configEntries opts) [] = (Inr d, [Fetch req]) \<and>
           d \<noteq> JNull \<and> truthy (getProp d ''variant_id'')"
proof -
  from assms obtain entry tr where rs: "readSource e src = Inr entry"
    and up: "upload e this opts (entry # configEntries opts) [] = (Inr d, tr)"
    and rq: "req = uploadRequest e this opts (entry # configEntries opts)"
    by (auto simp: submission_def split: sum.splits prod.splits)
  from upload_Inr [OF up] rs up rq show ?thesis
    by auto
qed

lemma process_submitted:
  assumes "submission e this src opts = Some (d, req)"
  shows "process e this src opts =
     (if wait opts = Some False then (Inr (processResult d [] []), [Fetch req])
      else case pollLoop e (pollingOf this opts (getProp d ''variant_id'') (now e 0)) 0
                  [Fetch req, DateNow] of
        (Some err, _, tr2) \<Rightarrow> (Inl err, tr2)
      | (None, _, tr2) \<Rightarrow>
          (case fetchChunks e this (getProp d ''variant_id'') tr2 of
             (Inl err, tr3) \<Rightarrow> (Inl err, tr3)
           | (Inr cs, tr3) \<Rightarrow>
               (Inr (processResult d (map (\<lambda>c. getProp c ''text'') cs) (map chunkMetadata cs)),
                tr3)))"
proof -
  from submission_upload [OF assms] obtain entry where
    "readSource e src = Inr entry"
    "upload e this opts (entry # configEntries opts) [] = (Inr d, [Fetch req])"
    by blast
  then show ?thesis
    by (simp add: process_def dateNow_def)
qed

lemmas platform_eval =
  browser_def scripted_def okResponse_def defaultClient_def noOptions_def uploadBody_def
  statusBody_def failedBody_def chunksBody_def pdf_def pdfUpload_def

lemmas submission_eval =
  submission_def readSource_def upload_def doFetch_def uploadRequest_def uploadUrl_def
  queryParams_def paramIfDefined_def searchParamsToString_def configEntries_def
  appendIfDefined_def appendIfTruthy_def


lemma v1_requests:
  "getRequest defaultClient (variantUrl defaultClient (getProp uploadBody ''variant_id''))
     = v1Status"
  "chunksRequest defaultClient (getProp uploadBody ''variant_id'') = v1Chunks"
  by (simp_all add: chunksRequest_def getRequest_def variantUrl_def defaultClient_def
      uploadBody_def v1Status_def v1Chunks_def jsvalToString_def)

section \<open>process with wait: false\<close>



section \<open>The loop terminates\<close>




section \<open>pending, processing, completed\<close>

text \<open>
  C3. When the submission succeeds, \<open>wait\<close> is not \<open>false\<close>, the three status requests are
  answered \<open>pending\<close>, \<open>processing\<close> and \<open>completed\<close>, neither ceiling is reached in those
  three passes, and the chunk request is answered by a body whose \<open>chunks\<close> is an array
  \<open>cs\<close> of objects, then \<open>process\<close> returns a result, its requests are the upload, three
  status requests and one chunk request in that order, and \<open>chunks\<close> and \<open>metadata\<close> of the
  result both have the length of \<open>cs\<close>.
\<close>

theorem process_pending_processing_completed:
  assumes "submission e this src opts = Some (d, req)" and "wait opts \<noteq> Some False"
    and "v = pollingOf this opts (getProp d ''variant_id'') (now e 0)"
    and "hasStatus (fetch e 1 (statusRequest v)) ''pending''"
    and "hasStatus (fetch e 2 (statusRequest v)) ''processing''"
    and "hasStatus (fetch e 3 (statusRequest v)) ''completed''"
    and "3 \<le> maxAttempts v"
    and "now e 1 - now e 0 \<le> pollTimeoutMs v"
    and "now e 2 - now e 0 \<le> pollTimeoutMs v"
    and "now e 3 - now e 0 \<le> pollTimeoutMs v"
    and "okBody (fetch e 4 (chunksRequest this (getProp d ''variant_id''))) = Some body"
    and "getProp body ''chunks'' = Some (JArr cs)" and "JNull \<notin> set cs"
  shows "\<exists>r tr. process e this src opts = (Inr r, tr) \<and>
           requestsOf tr =
             [req, statusRequest v, statusRequest v, statusRequest v,
              chunksRequest this (getProp d ''variant_id'')] \<and>
           length (ProcessResult.chunks r) = length cs \<and>
           length (ProcessResult.metadata r) = length cs"
proof -
  let ?s = "Sleep (polling.pollInterval v)"
  let ?q = "Fetch (statusRequest v)"
  let ?tr0 = "[Fetch req, DateNow]"
  let ?tr2 = "?tr0 @ concat (replicate 2 [DateNow, ?q, ?s])"
  have st: "startTime v = now e 0"
    using assms(3) by simp
  have "pollLoop e v 0 ?tr0 = pollLoop e v (0 + int 2) ?tr2"
  proof (rule pollLoop_continues)
    show "0 + int 2 \<le> maxAttempts v" using assms(7) by simp
    show "\<forall>i<2. now e (clockReads ?tr0 + i) - startTime v \<le> pollTimeoutMs v"
      using assms(8,9) st by (auto simp: less_Suc_eq numeral_2_eq_2)
    show "\<forall>i<2. nonTerminal (fetch e (fetches ?tr0 + i) (statusRequest v))"
      using hasStatus_nonTerminal [OF assms(4)] hasStatus_nonTerminal [OF assms(5)]
      by (auto simp: less_Suc_eq numeral_2_eq_2)
  qed
  also have "\<dots> = (None, 0 + int 2 + 1, ?tr2 @ [DateNow, ?q])"
  proof (rule pollLoop_break)
    show "0 + int 2 + 1 \<le> maxAttempts v" using assms(7) by simp
    show "now e (clockReads ?tr2) - startTime v \<le> pollTimeoutMs v"
      using assms(10) st by (simp add: numeral_2_eq_2 numeral_3_eq_3)
    show "hasStatus (fetch e (fetches ?tr2) (statusRequest v)) ''completed''"
      using assms(6) by (simp add: numeral_2_eq_2 numeral_3_eq_3)
  qed
  finally have loop: "pollLoop e v 0 ?tr0 = (None, 3, ?tr2 @ [DateNow, ?q])"
    by simp
  have "fetches (?tr2 @ [DateNow, ?q]) = 4"
    by (simp add: numeral_2_eq_2)
  with assms(11) have "okBody (fetch e (fetches (?tr2 @ [DateNow, ?q]))
      (chunksRequest this (getProp d ''variant_id''))) = Some body"
    by simp
  from fetchChunks_array [OF this assms(12,13)] loop assms(2,3) show ?thesis
    by (simp add: process_submitted [OF assms(1)] processResult_def numeral_2_eq_2)
qed


theorem process_pending_processing_completed_witness:
  "\<exists>r tr.
     process
       (browser
          (scripted [okResponse uploadBody, okResponse (statusBody ''pending''),
             okResponse (statusBody ''processing''), okResponse (statusBody ''completed''),
             okResponse chunksBody])
          (\<lambda>n. 10 * int n))
       defaultClient pdf (noOptions\<lparr>ProcessOptions.pollInterval := Some 10\<rparr>) = (Inr r, tr) \<and>
     requestsOf tr = [pdfUpload, v1Status, v1Status, v1Status, v1Chunks] \<and>
     length (ProcessResult.chunks r) = 2 \<and> length (ProcessResult.metadata r) = 2"
proof -
  let ?e = "browser
          (scripted [okResponse uploadBody, okResponse (statusBody ''pending''),
             okResponse (statusBody ''processing''), okResponse (statusBody ''completed''),
             okResponse chunksBody])
          (\<lambda>n. 10 * int n)"
  let ?o = "noOptions\<lparr>ProcessOptions.pollInterval := Some 10\<rparr>"
  let ?v = "pollingOf defaultClient ?o (getProp uploadBody ''variant_id'') (now ?e 0)"
  let ?cs = "[JObj [(''id'', JStr ''c1''), (''text'', JStr ''first'')],
              JObj [(''id'', JStr ''c2''), (''text'', JStr ''second'')]]"
  have s: "submission ?e defaultClient pdf ?o = Some (uploadBody, pdfUpload)"
    by (simp add: submission_eval platform_eval)
  have w: "wait ?o \<noteq> Some False"
    by (simp add: noOptions_def)
  have p1: "hasStatus (fetch ?e 1 (statusRequest ?v)) ''pending''"
    and p2: "hasStatus (fetch ?e 2 (statusRequest ?v)) ''processing''"
    and p3: "hasStatus (fetch ?e 3 (statusRequest ?v)) ''completed''"
    and c: "okBody (fetch ?e 4 (chunksRequest defaultClient (getProp uploadBody ''variant_id'')))
              = Some chunksBody"
    by (simp_all add: hasStatus_def okBody_def browser_def scripted_def okResponse_def
        statusBody_def chunksBody_def)
  have m: "3 \<le> maxAttempts ?v"
    and t1: "now ?e 1 - now ?e 0 \<le> pollTimeoutMs ?v"
    and t2: "now ?e 2 - now ?e 0 \<le> pollTimeoutMs ?v"
    and t3: "now ?e 3 - now ?e 0 \<le> pollTimeoutMs ?v"
    by (simp_all add: pollingOf_def numOr_def browser_def defaultClient_def noOptions_def)
  have a: "getProp chunksBody ''chunks'' = Some (JArr ?cs)" and n: "JNull \<notin> set ?cs"
    by (simp_all add: chunksBody_def)
  from process_pending_processing_completed [OF s w refl p1 p2 p3 m t1 t2 t3 c a n]
  show ?thesis
    by (simp add: v1_requests numeral_2_eq_2)
qed

section \<open>A failed status\<close>



section \<open>The attempt ceiling\<close>





section \<open>The events of processStream\<close>

lemma eventsOf_append [simp]: "eventsOf (a @ b) = eventsOf a @ eventsOf b"
  by (induction a rule: eventsOf.induct) simp_all










lemma streamPolling_simps [simp]:
  "statusRequest (streamPollingOf this opts vid t0) = getRequest this (variantUrl this vid)"
  "startTime (streamPollingOf this opts vid t0) = t0"
  by (simp_all add: streamPollingOf_def)





section \<open>What the submission transmits\<close>

lemma getAll_append [simp]: "getAll (a @ b) k = getAll a k @ getAll b k"
  by (simp add: getAll_def)

lemma getAll_appendIfDefined [simp]:
  "getAll (appendIfDefined k v) k' = (if k = k' then provided (map_option FormString v) else [])"
  by (cases v) (simp_all add: getAll_def appendIfDefined_def provided_def)

lemma getAll_appendIfTruthy [simp]:
  "getAll (appendIfTruthy k v) k' =
     (if k = k' \<and> v \<noteq> Some [] then provided (map_option FormString v) else [])"
  by (cases v) (simp_all add: getAll_def appendIfTruthy_def provided_def)

lemma getAll_paramIfDefined [simp]:
  "getAll (paramIfDefined k v) k' = (if k = k' then provided v else [])"
  by (cases v) (simp_all add: getAll_def paramIfDefined_def provided_def)







section \<open>What transformVariant preserves\<close>







section \<open>Bodies that do not decode, and bodies without chunks\<close>







end
